theory Spec2Isabelle
  imports Main "HOL-Library.Word"
begin

section \<open>wickedd: connection acceptor, request handler and event pipeline\<close>

text \<open>
  A shallow embedding of \<^verbatim>\<open>src/wickedd.c\<close>. Every function of the file is a HOL
  function that returns the sequence of calls it makes into the libraries it is linked
  against (logging, request parsing, XML, policies, libc), in program order, together
  with the way it leaves (returning a value, or ending the process). What those
  libraries answer is not decided in this file; it is a parameter of the model
  (the record \<open>env\<close>, and the value \<open>fork()\<close> returns).
\<close>

subsection \<open>C types\<close>

text \<open>
  \<^verbatim>\<open>uid_t\<close> and \<^verbatim>\<open>gid_t\<close> are unsigned 32-bit values. The \<^verbatim>\<open>int\<close> result codes and the
  \<^verbatim>\<open>pid_t\<close> returned by \<^verbatim>\<open>fork()\<close> are only compared with 0 and passed on, never
  computed with, so they are modelled as \<open>int\<close>. A \<^verbatim>\<open>ni_socket_t *\<close> and a
  \<^verbatim>\<open>ni_handle_t *\<close> are opaque handles.
\<close>

type_synonym uid_t = "32 word"
type_synonym gid_t = "32 word"
type_synonym ni_socket = nat
type_synonym ni_handle = nat

text \<open>
  Of \<^verbatim>\<open>ni_interface_t\<close> the file reads the field \<^verbatim>\<open>name\<close> only, through \<^verbatim>\<open>%s\<close>
  directives. The name is the content of the C string (the bytes before its
  terminating NUL); the structure is declared in \<^verbatim>\<open>wicked/netinfo.h\<close>, which is not
  under \<^verbatim>\<open>src/\<close>, so no bound on the length of the name is assumed.
\<close>

record ni_interface =
  name :: string

text \<open>
  Modelled from the spec: the XML document model of \<^verbatim>\<open>wicked/xml.h\<close> is not under
  \<^verbatim>\<open>src/\<close>. A node has a tag, attributes and child nodes; \<open>xml_node_new\<close> makes a
  node with neither attributes nor children (its parent argument is \<^verbatim>\<open>NULL\<close> in
  this file), \<open>xml_node_add_attr\<close> adds one attribute, and \<open>xml_node_replace_child\<close>
  attaches a child to the node (the event node has no child when the file calls it).
  \<open>xml_node_new\<close> is taken to succeed: the file does not test its result before use.
\<close>

datatype xml_node =
  Xml_node (xml_name: string) (xml_attrs: "(string \<times> string) list") (xml_children: "xml_node list")

definition xml_node_new :: "string \<Rightarrow> xml_node" where
  "xml_node_new tag = Xml_node tag [] []"

definition xml_node_add_attr :: "xml_node \<Rightarrow> string \<Rightarrow> string \<Rightarrow> xml_node" where
  "xml_node_add_attr node k v =
     Xml_node (xml_name node) (xml_attrs node @ [(k, v)]) (xml_children node)"

definition xml_node_replace_child :: "xml_node \<Rightarrow> xml_node \<Rightarrow> xml_node" where
  "xml_node_replace_child node child =
     Xml_node (xml_name node) (xml_attrs node) (xml_children node @ [child])"

subsection \<open>Calls into the environment\<close>

text \<open>
  The arguments of a printf-style logging call are kept beside its format string.
\<close>

datatype arg = Arg_uint "32 word" | Arg_str string

text \<open>
  One constructor per library function called by the acceptor, the request handler, the
  event handler and the main loop. \<open>'req\<close> is the state of a \<^verbatim>\<open>ni_wicked_request_t\<close>,
  \<open>'policy\<close> a \<^verbatim>\<open>ni_policy_t *\<close>. The debug macros \<^verbatim>\<open>ni_debug_wicked\<close> and
  \<^verbatim>\<open>ni_debug_events\<close> are recorded whether or not their facility is enabled.
  \<open>Snprintf\<close> carries the string left in the destination buffer. \<open>Close_connection\<close>
  is the socket layer closing an accepted connection (see \<open>main_loop\<close>).
\<close>

datatype ('req, 'policy) call =
    Ni_error string "arg list"
  | Ni_fatal string
  | Ni_debug_wicked string "arg list"
  | Ni_debug_events string "arg list"
  | Fork
  | Exit int
  | Ni_wicked_request_init
  | Ni_wicked_request_parse ni_socket
  | Ni_wicked_call_direct 'req
  | Ni_wicked_response_print ni_socket 'req int
  | Ni_wicked_request_destroy 'req
  | Xml_node_new string
  | Xml_node_add_attr xml_node string string
  | Ni_default_xml_syntax
  | Ni_syntax_xml_from_interface ni_handle string
  | Xml_node_replace_child xml_node xml_node
  | Ni_default_policies
  | Ni_policy_match_event xml_node
  | Ni_policy_apply 'policy xml_node
  | Snprintf string
  | Xml_node_free xml_node
  | Close_connection ni_socket

text \<open>How a C function leaves: it returns a value, or it ends the process.\<close>

datatype outcome = Returns int | Exits int

text \<open>
  What the libraries answer. The request library: the state \<^verbatim>\<open>ni_wicked_request_init\<close>
  leaves in the request, and the result code and request state after
  \<^verbatim>\<open>ni_wicked_request_parse\<close> and \<^verbatim>\<open>ni_wicked_call_direct\<close>. The libraries of the event
  handler: the serializer of the default XML syntax (\<open>None\<close> is a \<^verbatim>\<open>NULL\<close> result), the
  matcher over the default policies (likewise), the field \<^verbatim>\<open>action\<close> of a policy, and
  \<^verbatim>\<open>ni_policy_apply\<close>, which returns a result code and changes the interface node in
  place.
\<close>

record ('req, 'policy) env =
  request_init :: "'req"
  request_parse :: "ni_socket \<Rightarrow> 'req \<Rightarrow> int \<times> 'req"
  call_direct :: "'req \<Rightarrow> int \<times> 'req"
  syntax_xml_from_interface :: "ni_handle \<Rightarrow> ni_interface \<Rightarrow> xml_node option"
  policy_match_event :: "xml_node \<Rightarrow> 'policy option"
  policy_action :: "'policy \<Rightarrow> string"
  policy_apply :: "'policy \<Rightarrow> xml_node \<Rightarrow> int \<times> xml_node"

subsection \<open>The request handler\<close>

definition wicked_process_network_restcall ::
  "('req, 'policy) env \<Rightarrow> ni_socket \<Rightarrow> ('req, 'policy) call list" where
  "wicked_process_network_restcall env sock =
     (case request_parse env sock (request_init env) of
        (rv, req) \<Rightarrow>
          if 0 \<le> rv then
            (case call_direct env req of
               (rv', req') \<Rightarrow>
                 [Ni_wicked_request_init, Ni_wicked_request_parse sock,
                  Ni_wicked_call_direct req,
                  Ni_wicked_response_print sock req' rv',
                  Ni_wicked_request_destroy req'])
          else
            [Ni_wicked_request_init, Ni_wicked_request_parse sock,
             Ni_wicked_response_print sock req rv,
             Ni_wicked_request_destroy req])"

subsection \<open>The connection acceptor\<close>

text \<open>
  \<open>opt_nofork\<close> is the static flag set by \<^verbatim>\<open>--no-fork\<close>. \<open>pid\<close> is the value
  \<^verbatim>\<open>fork()\<close> returns in the process that runs the function: negative when no child
  could be made, 0 in the child, the child's pid in the daemon. The function does not
  read \<^verbatim>\<open>gid\<close>.
\<close>

definition wicked_accept_connection ::
  "int \<Rightarrow> ('req, 'policy) env \<Rightarrow> int \<Rightarrow> ni_socket \<Rightarrow> uid_t \<Rightarrow> gid_t \<Rightarrow>
     ('req, 'policy) call list \<times> outcome" where
  "wicked_accept_connection opt_nofork env pid sock uid gid =
     (if uid \<noteq> 0 then
        ([Ni_error ''refusing attempted connection by user %u'' [Arg_uint uid]], Returns (- 1))
      else if opt_nofork \<noteq> 0 then
        (Ni_debug_wicked ''accepted connection from uid=%u'' [Arg_uint uid]
           # wicked_process_network_restcall env sock,
         Returns (- 1))
      else if pid < 0 then
        ([Ni_debug_wicked ''accepted connection from uid=%u'' [Arg_uint uid], Fork,
          Ni_error ''unable to fork worker child: %m'' []],
         Returns (- 1))
      else if pid = 0 then
        ([Ni_debug_wicked ''accepted connection from uid=%u'' [Arg_uint uid], Fork]
           @ wicked_process_network_restcall env sock @ [Exit 0],
         Exits 0)
      else
        ([Ni_debug_wicked ''accepted connection from uid=%u'' [Arg_uint uid], Fork],
         Returns (- 1)))"

subsection \<open>The event handler\<close>

text \<open>
  The enumeration \<^verbatim>\<open>ni_event_t\<close> is declared in \<^verbatim>\<open>wicked/netinfo.h\<close>, which is not
  under \<^verbatim>\<open>src/\<close>: the values of its six enumerators and of \<^verbatim>\<open>__NI_EVENT_MAX\<close> are
  parameters of the model. An event is the unsigned value the callback receives.
\<close>

record ni_event_enum =
  NI_EVENT_LINK_CREATE :: nat
  NI_EVENT_LINK_DELETE :: nat
  NI_EVENT_LINK_UP :: nat
  NI_EVENT_LINK_DOWN :: nat
  NI_EVENT_NETWORK_UP :: nat
  NI_EVENT_NETWORK_DOWN :: nat
  NI_EVENT_MAX :: nat

text \<open>
  A C compiler accepts the designated initializers of \<^verbatim>\<open>evtype\<close> only when every
  index is below the array's size; enumerators of one enumeration that are declared
  without values are distinct.
\<close>

definition enum_ok :: "ni_event_enum \<Rightarrow> bool" where
  "enum_ok d =
     (distinct [NI_EVENT_LINK_CREATE d, NI_EVENT_LINK_DELETE d, NI_EVENT_LINK_UP d,
                NI_EVENT_LINK_DOWN d, NI_EVENT_NETWORK_UP d, NI_EVENT_NETWORK_DOWN d]
      \<and> NI_EVENT_LINK_CREATE d < NI_EVENT_MAX d
      \<and> NI_EVENT_LINK_DELETE d < NI_EVENT_MAX d
      \<and> NI_EVENT_LINK_UP d < NI_EVENT_MAX d
      \<and> NI_EVENT_LINK_DOWN d < NI_EVENT_MAX d
      \<and> NI_EVENT_NETWORK_UP d < NI_EVENT_MAX d
      \<and> NI_EVENT_NETWORK_DOWN d < NI_EVENT_MAX d)"

text \<open>
  The static table \<^verbatim>\<open>evtype[__NI_EVENT_MAX]\<close>: every entry is \<^verbatim>\<open>NULL\<close> (\<open>None\<close>)
  but the six the initializer names, written in the initializer's order.
\<close>

definition evtype :: "ni_event_enum \<Rightarrow> string option list" where
  "evtype d =
     (replicate (NI_EVENT_MAX d) None)
       [NI_EVENT_LINK_CREATE d := Some ''link-create'',
        NI_EVENT_LINK_DELETE d := Some ''link-delete'',
        NI_EVENT_LINK_UP d := Some ''link-up'',
        NI_EVENT_LINK_DOWN d := Some ''link-down'',
        NI_EVENT_NETWORK_UP d := Some ''network-up'',
        NI_EVENT_NETWORK_DOWN d := Some ''network-down'']"

text \<open>
  \<^verbatim>\<open>snprintf(buf, n, fmt, s)\<close> for a format with one \<^verbatim>\<open>%s\<close> directive: the
  directive is replaced by the string, and the buffer receives at most \<open>n - 1\<close>
  characters of the result before the terminating NUL.
\<close>

fun expand_format :: "string \<Rightarrow> string \<Rightarrow> string" where
  "expand_format [] s = []"
| "expand_format [c] s = [c]"
| "expand_format (c # c' # cs) s =
     (if c = CHR ''%'' \<and> c' = CHR ''s'' then s @ cs else c # expand_format (c' # cs) s)"

definition snprintf :: "nat \<Rightarrow> string \<Rightarrow> string \<Rightarrow> string" where
  "snprintf n fmt s = take (n - 1) (expand_format fmt s)"

text \<open>
  \<open>ifnode\<close> is a child of \<open>evnode\<close> from \<^verbatim>\<open>xml_node_replace_child\<close> on, so the node
  freed at \<^verbatim>\<open>out:\<close> after \<^verbatim>\<open>ni_policy_apply\<close> holds the changed interface node.
\<close>

definition wicked_interface_event ::
  "ni_event_enum \<Rightarrow> ('req, 'policy) env \<Rightarrow> ni_handle \<Rightarrow> ni_interface \<Rightarrow> nat \<Rightarrow>
     ('req, 'policy) call list" where
  "wicked_interface_event d env nih ifp event =
     (if NI_EVENT_MAX d \<le> event then []
      else case evtype d ! event of
        None \<Rightarrow> []
      | Some ev \<Rightarrow>
          [Ni_debug_events ''%s: %s event'' [Arg_str (name ifp), Arg_str ev],
           Xml_node_new ''event'',
           Xml_node_add_attr (xml_node_new ''event'') ''type'' ev,
           Ni_default_xml_syntax,
           Ni_syntax_xml_from_interface nih (name ifp)]
          @ (let evnode = xml_node_add_attr (xml_node_new ''event'') ''type'' ev in
             case syntax_xml_from_interface env nih ifp of
               None \<Rightarrow> [Xml_node_free evnode]
             | Some ifnode \<Rightarrow>
                 [Xml_node_replace_child evnode ifnode,
                  Ni_default_policies,
                  Ni_policy_match_event (xml_node_replace_child evnode ifnode)]
                 @ (case policy_match_event env (xml_node_replace_child evnode ifnode) of
                      None \<Rightarrow> [Xml_node_free (xml_node_replace_child evnode ifnode)]
                    | Some policy \<Rightarrow>
                        [Ni_debug_events ''matched a policy (action=%s)''
                           [Arg_str (policy_action env policy)],
                         Ni_policy_apply policy ifnode]
                        @ (case policy_apply env policy ifnode of
                             (rv, ifnode') \<Rightarrow>
                               if rv < 0 then
                                 [Xml_node_free (xml_node_replace_child evnode ifnode')]
                               else
                                 [Snprintf (snprintf 256 ''/system/interface/%s'' (name ifp)),
                                  Xml_node_free (xml_node_replace_child evnode ifnode')]))))"

text \<open>
  Modelled from the spec: \<^verbatim>\<open>ni_policy_match_event\<close> (the Policy Store's matcher) is
  not under \<^verbatim>\<open>src/\<close>. It returns the first policy, in store order, whose predicate
  accepts the document, or none.
\<close>

definition ni_policy_match_event ::
  "('policy \<Rightarrow> xml_node \<Rightarrow> bool) \<Rightarrow> 'policy list \<Rightarrow> xml_node \<Rightarrow> 'policy option" where
  "ni_policy_match_event accepts store doc = find (\<lambda>p. accepts p doc) store"

subsection \<open>The main loop\<close>

text \<open>
  \<^verbatim>\<open>main\<close> ends in \<^verbatim>\<open>while (1) { if (ni_socket_wait(-1) < 0) ni_fatal(...); }\<close>.
  \<^verbatim>\<open>ni_socket_wait\<close> belongs to the socket layer, which is not under \<^verbatim>\<open>src/\<close>; what
  each call of it finds is a parameter: a failure, a connection for the callback
  \<^verbatim>\<open>sock->accept\<close> (with the caller's credentials and the value \<^verbatim>\<open>fork()\<close> would
  return), or a kernel event for the callback given to \<^verbatim>\<open>ni_server_listen_events\<close>.
  By the comment above \<^verbatim>\<open>wicked_accept_connection\<close>, the socket layer closes the
  connection when the callback returns -1.
\<close>

datatype ready =
    Wait_failed
  | Ready_connection ni_socket uid_t gid_t int
  | Ready_event ni_handle ni_interface nat

datatype process_state = Waiting | Exited int | Fatal

text \<open>
  The loop never ends by itself; \<open>main_loop\<close> runs it over the first readiness
  reports and tells what the process has called and where it stands then: blocked in
  the wait, ended by \<^verbatim>\<open>exit\<close>, or ended by \<^verbatim>\<open>ni_fatal\<close>.
\<close>

fun main_loop ::
  "int \<Rightarrow> ni_event_enum \<Rightarrow> ('req, 'policy) env \<Rightarrow> ready list \<Rightarrow>
     ('req, 'policy) call list \<times> process_state" where
  "main_loop opt_nofork d env [] = ([], Waiting)"
| "main_loop opt_nofork d env (Wait_failed # rs) =
     ([Ni_fatal ''ni_socket_wait failed''], Fatal)"
| "main_loop opt_nofork d env (Ready_connection sock uid gid pid # rs) =
     (case wicked_accept_connection opt_nofork env pid sock uid gid of
        (t, Exits n) \<Rightarrow> (t, Exited n)
      | (t, Returns rv) \<Rightarrow>
          (t @ (if rv = - 1 then [Close_connection sock] else [])
             @ fst (main_loop opt_nofork d env rs),
           snd (main_loop opt_nofork d env rs)))"
| "main_loop opt_nofork d env (Ready_event nih ifp event # rs) =
     (wicked_interface_event d env nih ifp event @ fst (main_loop opt_nofork d env rs),
      snd (main_loop opt_nofork d env rs))"

subsection \<open>Observers on call sequences\<close>

fun is_response :: "('req, 'policy) call \<Rightarrow> bool" where
  "is_response (Ni_wicked_response_print s r rv) = True"
| "is_response c = False"

text \<open>A call that only the request handler makes.\<close>

fun is_handler_call :: "('req, 'policy) call \<Rightarrow> bool" where
  "is_handler_call Ni_wicked_request_init = True"
| "is_handler_call (Ni_wicked_request_parse s) = True"
| "is_handler_call (Ni_wicked_call_direct r) = True"
| "is_handler_call (Ni_wicked_response_print s r rv) = True"
| "is_handler_call (Ni_wicked_request_destroy r) = True"
| "is_handler_call c = False"

text \<open>The policies applied, the nodes freed and the target paths built, in a call sequence.\<close>

fun applied :: "('req, 'policy) call list \<Rightarrow> 'policy list" where
  "applied [] = []"
| "applied (Ni_policy_apply p n # cs) = p # applied cs"
| "applied (c # cs) = applied cs"


fun restpaths :: "('req, 'policy) call list \<Rightarrow> string list" where
  "restpaths [] = []"
| "restpaths (Snprintf p # cs) = p # restpaths cs"
| "restpaths (c # cs) = restpaths cs"

subsection \<open>Concrete inputs\<close>

text \<open>
  Inputs on which the model is run below. \<open>enum_in_order\<close> numbers the six kinds from 0
  in the order of the table; \<open>enum_from_one\<close> numbers them from 1, which leaves entry 0
  of the table \<^verbatim>\<open>NULL\<close>.
\<close>

definition enum_in_order :: ni_event_enum where
  "enum_in_order =
     \<lparr>NI_EVENT_LINK_CREATE = 0, NI_EVENT_LINK_DELETE = 1, NI_EVENT_LINK_UP = 2,
      NI_EVENT_LINK_DOWN = 3, NI_EVENT_NETWORK_UP = 4, NI_EVENT_NETWORK_DOWN = 5,
      NI_EVENT_MAX = 6\<rparr>"

definition enum_from_one :: ni_event_enum where
  "enum_from_one =
     \<lparr>NI_EVENT_LINK_CREATE = 1, NI_EVENT_LINK_DELETE = 2, NI_EVENT_LINK_UP = 3,
      NI_EVENT_LINK_DOWN = 4, NI_EVENT_NETWORK_UP = 5, NI_EVENT_NETWORK_DOWN = 6,
      NI_EVENT_MAX = 7\<rparr>"

text \<open>
  A policy of the test environment is a pair (event type it accepts, action). A request
  is the text read; the stream of socket 0 does not parse. An interface without a name
  does not serialize, and the action \<open>''fail''\<close> cannot be applied.
\<close>

definition accepts_kind :: "string \<times> string \<Rightarrow> xml_node \<Rightarrow> bool" where
  "accepts_kind p doc = ((''type'', fst p) \<in> set (xml_attrs doc))"

definition test_env :: "(string \<times> string) list \<Rightarrow> (string, string \<times> string) env" where
  "test_env store =
     \<lparr>request_init = [],
      request_parse =
        (\<lambda>sock req. if sock = 0 then (- 1, req) else (0, ''GET /system/interface/eth0'')),
      call_direct = (\<lambda>req. (0, req)),
      syntax_xml_from_interface =
        (\<lambda>nih ifp. if name ifp = [] then None
                    else Some (Xml_node ''interface'' [(''name'', name ifp)] [])),
      policy_match_event = ni_policy_match_event accepts_kind store,
      policy_action = snd,
      policy_apply =
        (\<lambda>p node. if snd p = ''fail'' then (- 1, node)
                    else (0, xml_node_add_attr node ''action'' (snd p)))\<rparr>"

section \<open>Properties\<close>

subsection \<open>The table of event names\<close>

lemma enum_ok_facts:
  assumes "enum_ok d"
  shows "distinct [NI_EVENT_LINK_CREATE d, NI_EVENT_LINK_DELETE d, NI_EVENT_LINK_UP d,
                NI_EVENT_LINK_DOWN d, NI_EVENT_NETWORK_UP d, NI_EVENT_NETWORK_DOWN d]"
   and "NI_EVENT_LINK_CREATE d < NI_EVENT_MAX d"
   and "NI_EVENT_LINK_DELETE d < NI_EVENT_MAX d"
   and "NI_EVENT_LINK_UP d < NI_EVENT_MAX d"
   and "NI_EVENT_LINK_DOWN d < NI_EVENT_MAX d"
   and "NI_EVENT_NETWORK_UP d < NI_EVENT_MAX d"
   and "NI_EVENT_NETWORK_DOWN d < NI_EVENT_MAX d"
  using assms unfolding enum_ok_def by blast+

text \<open>A later initializer of the table wins, so the entries are read last to first.\<close>

lemma evtype_nth:
  "i < NI_EVENT_MAX d \<Longrightarrow>
   evtype d ! i =
     (if i = NI_EVENT_NETWORK_DOWN d then Some ''network-down''
      else if i = NI_EVENT_NETWORK_UP d then Some ''network-up''
      else if i = NI_EVENT_LINK_DOWN d then Some ''link-down''
      else if i = NI_EVENT_LINK_UP d then Some ''link-up''
      else if i = NI_EVENT_LINK_DELETE d then Some ''link-delete''
      else if i = NI_EVENT_LINK_CREATE d then Some ''link-create''
      else None)"
  by (simp add: evtype_def nth_list_update)

lemma evtype_entries:
  assumes "enum_ok d"
  shows "evtype d ! NI_EVENT_LINK_CREATE d = Some ''link-create''"
    and "evtype d ! NI_EVENT_LINK_DELETE d = Some ''link-delete''"
    and "evtype d ! NI_EVENT_LINK_UP d = Some ''link-up''"
    and "evtype d ! NI_EVENT_LINK_DOWN d = Some ''link-down''"
    and "evtype d ! NI_EVENT_NETWORK_UP d = Some ''network-up''"
    and "evtype d ! NI_EVENT_NETWORK_DOWN d = Some ''network-down''"
proof -
  note f = enum_ok_facts [OF assms]
  from f(1) have ne:
    "NI_EVENT_LINK_CREATE d \<noteq> NI_EVENT_LINK_DELETE d"
    "NI_EVENT_LINK_CREATE d \<noteq> NI_EVENT_LINK_UP d"
    "NI_EVENT_LINK_CREATE d \<noteq> NI_EVENT_LINK_DOWN d"
    "NI_EVENT_LINK_CREATE d \<noteq> NI_EVENT_NETWORK_UP d"
    "NI_EVENT_LINK_CREATE d \<noteq> NI_EVENT_NETWORK_DOWN d"
    "NI_EVENT_LINK_DELETE d \<noteq> NI_EVENT_LINK_UP d"
    "NI_EVENT_LINK_DELETE d \<noteq> NI_EVENT_LINK_DOWN d"
    "NI_EVENT_LINK_DELETE d \<noteq> NI_EVENT_NETWORK_UP d"
    "NI_EVENT_LINK_DELETE d \<noteq> NI_EVENT_NETWORK_DOWN d"
    "NI_EVENT_LINK_UP d \<noteq> NI_EVENT_LINK_DOWN d"
    "NI_EVENT_LINK_UP d \<noteq> NI_EVENT_NETWORK_UP d"
    "NI_EVENT_LINK_UP d \<noteq> NI_EVENT_NETWORK_DOWN d"
    "NI_EVENT_LINK_DOWN d \<noteq> NI_EVENT_NETWORK_UP d"
    "NI_EVENT_LINK_DOWN d \<noteq> NI_EVENT_NETWORK_DOWN d"
    "NI_EVENT_NETWORK_UP d \<noteq> NI_EVENT_NETWORK_DOWN d"
    by simp_all
  show "evtype d ! NI_EVENT_LINK_CREATE d = Some ''link-create''"
    using ne by (simp add: evtype_nth [OF f(2)])
  show "evtype d ! NI_EVENT_LINK_DELETE d = Some ''link-delete''"
    using ne by (simp add: evtype_nth [OF f(3)])
  show "evtype d ! NI_EVENT_LINK_UP d = Some ''link-up''"
    using ne by (simp add: evtype_nth [OF f(4)])
  show "evtype d ! NI_EVENT_LINK_DOWN d = Some ''link-down''"
    using ne by (simp add: evtype_nth [OF f(5)])
  show "evtype d ! NI_EVENT_NETWORK_UP d = Some ''network-up''"
    using ne by (simp add: evtype_nth [OF f(6)])
  show "evtype d ! NI_EVENT_NETWORK_DOWN d = Some ''network-down''"
    using ne by (simp add: evtype_nth [OF f(7)])
qed

lemma evtype_unknown:
  "event \<notin> {NI_EVENT_LINK_CREATE d, NI_EVENT_LINK_DELETE d, NI_EVENT_LINK_UP d,
              NI_EVENT_LINK_DOWN d, NI_EVENT_NETWORK_UP d, NI_EVENT_NETWORK_DOWN d}
   \<Longrightarrow> event < NI_EVENT_MAX d \<Longrightarrow> evtype d ! event = None"
  by (simp add: evtype_nth)

lemma enum_in_order_ok: "enum_ok enum_in_order"
  by (simp add: enum_ok_def enum_in_order_def)

lemma enum_in_order_max: "NI_EVENT_MAX enum_in_order = 6"
  by (simp add: enum_in_order_def)

lemma evtype_in_order:
  "evtype enum_in_order ! 3 = Some ''link-down''"
  by (simp add: evtype_nth enum_in_order_def)

subsection \<open>The call sequences of the event handler\<close>



lemma event_policy_applied:
  assumes "event < NI_EVENT_MAX d" and "evtype d ! event = Some ev"
    and "syntax_xml_from_interface env nih ifp = Some ifnode"
    and "policy_match_event env
           (xml_node_replace_child (xml_node_add_attr (xml_node_new ''event'') ''type'' ev) ifnode)
         = Some p"
    and "policy_apply env p ifnode = (rv, ifnode')"
  shows "wicked_interface_event d env nih ifp event =
    [Ni_debug_events ''%s: %s event'' [Arg_str (name ifp), Arg_str ev],
     Xml_node_new ''event'',
     Xml_node_add_attr (xml_node_new ''event'') ''type'' ev,
     Ni_default_xml_syntax,
     Ni_syntax_xml_from_interface nih (name ifp),
     Xml_node_replace_child (xml_node_add_attr (xml_node_new ''event'') ''type'' ev) ifnode,
     Ni_default_policies,
     Ni_policy_match_event
       (xml_node_replace_child (xml_node_add_attr (xml_node_new ''event'') ''type'' ev) ifnode),
     Ni_debug_events ''matched a policy (action=%s)'' [Arg_str (policy_action env p)],
     Ni_policy_apply p ifnode]
    @ (if rv < 0 then [] else [Snprintf (snprintf 256 ''/system/interface/%s'' (name ifp))])
    @ [Xml_node_free
        (xml_node_replace_child (xml_node_add_attr (xml_node_new ''event'') ''type'' ev) ifnode')]"
  using assms by (simp add: wicked_interface_event_def Let_def)

lemma event_known_trace:
  assumes "event < NI_EVENT_MAX d" and "evtype d ! event = Some ev"
  shows "take 3 (wicked_interface_event d env nih ifp event) =
           [Ni_debug_events ''%s: %s event'' [Arg_str (name ifp), Arg_str ev],
            Xml_node_new ''event'',
            Xml_node_add_attr (Xml_node ''event'' [] []) ''type'' ev]
         \<and> (\<exists>n. last (wicked_interface_event d env nih ifp event) = Xml_node_free n
               \<and> xml_name n = ''event'' \<and> xml_attrs n = [(''type'', ev)])"
  using assms
  by (simp add: wicked_interface_event_def Let_def xml_node_new_def xml_node_add_attr_def
        xml_node_replace_child_def split: option.split prod.split)

lemma applied_event_eq:
  "applied (wicked_interface_event d env nih ifp event) =
     (if event < NI_EVENT_MAX d then
        (case evtype d ! event of
           None \<Rightarrow> []
         | Some ev \<Rightarrow>
             (case syntax_xml_from_interface env nih ifp of
                None \<Rightarrow> []
              | Some ifnode \<Rightarrow>
                  (case policy_match_event env
                          (xml_node_replace_child
                             (xml_node_add_attr (xml_node_new ''event'') ''type'' ev) ifnode) of
                     None \<Rightarrow> []
                   | Some p \<Rightarrow> [p])))
      else [])"
  by (simp add: wicked_interface_event_def Let_def split: option.split prod.split)

subsection \<open>The target path\<close>

lemma snprintf_restpath:
  "snprintf 256 ''/system/interface/%s'' s = take 255 (''/system/interface/'' @ s)"
  by (simp add: snprintf_def)


lemma truncated_restpath:
  assumes "237 < length s"
  shows "length (take 255 (''/system/interface/'' @ s)) = 255
       \<and> take 255 (''/system/interface/'' @ s) \<noteq> ''/system/interface/'' @ s"
proof -
  define full where "full = ''/system/interface/'' @ s"
  have lf: "length full = 18 + length s"
    by (simp add: full_def)
  have len: "length (take 255 full) = 255"
    using assms lf by simp
  have "take 255 full \<noteq> full"
  proof
    assume "take 255 full = full"
    then have "length (take 255 full) = length full"
      by (rule arg_cong)
    with len lf assms show False
      by linarith
  qed
  with len show ?thesis
    unfolding full_def by (rule conjI)
qed

section \<open>The claims\<close>

subsection \<open>The connection acceptor\<close>

text \<open>
  C1. A connection whose caller uid is not 0 is refused: the acceptor logs the refusal and
  returns -1, and does nothing else; in particular it makes no call of the request
  handler and does not fork, whatever the isolation mode. The socket layer then closes
  the connection, and the daemon goes on with the next readiness report.
\<close>

theorem reject_non_root:
  assumes "uid \<noteq> 0"
  shows "wicked_accept_connection opt_nofork env pid sock uid gid =
           ([Ni_error ''refusing attempted connection by user %u'' [Arg_uint uid]], Returns (- 1))
       \<and> filter is_handler_call (fst (wicked_accept_connection opt_nofork env pid sock uid gid)) = []
       \<and> Fork \<notin> set (fst (wicked_accept_connection opt_nofork env pid sock uid gid))
       \<and> main_loop opt_nofork d env (Ready_connection sock uid gid pid # rs) =
           ([Ni_error ''refusing attempted connection by user %u'' [Arg_uint uid],
             Close_connection sock] @ fst (main_loop opt_nofork d env rs),
            snd (main_loop opt_nofork d env rs))"
  using assms by (simp add: wicked_accept_connection_def)

text \<open>Scenario A of the spec: a connection from uid 1000, in either isolation mode.\<close>

theorem reject_non_root_witness:
  "(1000 :: uid_t) \<noteq> 0
   \<and> wicked_accept_connection 0 (test_env []) 4711 5 1000 100 =
       ([Ni_error ''refusing attempted connection by user %u'' [Arg_uint 1000]], Returns (- 1))
   \<and> main_loop 1 enum_in_order (test_env []) [Ready_connection 5 1000 100 0] =
       ([Ni_error ''refusing attempted connection by user %u'' [Arg_uint 1000],
         Close_connection 5], Waiting)"
proof -
  have h: "(1000 :: uid_t) \<noteq> 0" by simp
  show ?thesis
    using h reject_non_root [OF h, of 0 "test_env []" 4711 5 100 enum_in_order "[]"]
      reject_non_root [OF h, of 1 "test_env []" 0 5 100 enum_in_order "[]"]
    by simp
qed

text \<open>
  C7. When \<^verbatim>\<open>fork()\<close> returns a negative value, the acceptor logs the error and returns
  -1 to the socket layer: the process neither exits nor runs the request handler, the
  connection is closed, and the main loop serves the readiness reports that follow.
\<close>

theorem fork_failure_rejects:
  assumes "uid = 0" and "opt_nofork = 0" and "pid < 0"
  shows "wicked_accept_connection opt_nofork env pid sock uid gid =
           ([Ni_debug_wicked ''accepted connection from uid=%u'' [Arg_uint uid], Fork,
             Ni_error ''unable to fork worker child: %m'' []], Returns (- 1))
       \<and> main_loop opt_nofork d env (Ready_connection sock uid gid pid # rs) =
           ([Ni_debug_wicked ''accepted connection from uid=%u'' [Arg_uint uid], Fork,
             Ni_error ''unable to fork worker child: %m'' [],
             Close_connection sock] @ fst (main_loop opt_nofork d env rs),
            snd (main_loop opt_nofork d env rs))"
  using assms by (simp add: wicked_accept_connection_def)

text \<open>
  Scenario F of the spec: the fork fails for the connection on socket 1; the connection
  on socket 2 that follows is accepted and handed to a worker.
\<close>

theorem fork_failure_rejects_witness:
  "(- 1 :: int) < 0
   \<and> main_loop 0 enum_in_order (test_env [])
        [Ready_connection 1 0 0 (- 1), Ready_connection 2 0 0 4711] =
       ([Ni_debug_wicked ''accepted connection from uid=%u'' [Arg_uint 0], Fork,
         Ni_error ''unable to fork worker child: %m'' [],
         Close_connection 1,
         Ni_debug_wicked ''accepted connection from uid=%u'' [Arg_uint 0], Fork,
         Close_connection 2], Waiting)"
proof -
  have h: "(- 1 :: int) < 0" by simp
  show ?thesis
    using h fork_failure_rejects [OF refl refl h, of "test_env []" 1 0 enum_in_order
        "[Ready_connection 2 0 0 4711]"]
    by (simp add: wicked_accept_connection_def)
qed

text \<open>
  C8. In the daemon's own process, which is every run of the acceptor but the one in a
  forked worker (uid 0, forking mode, \<^verbatim>\<open>fork()\<close> returned 0), the acceptor returns -1: for
  a refused caller, after inline handling, after a successful fork and after a failed
  one. The socket layer therefore closes the accepted connection in that process.
\<close>

theorem accept_returns_close:
  assumes "uid \<noteq> 0 \<or> opt_nofork \<noteq> 0 \<or> pid \<noteq> 0"
  shows "snd (wicked_accept_connection opt_nofork env pid sock uid gid) = Returns (- 1)
       \<and> main_loop opt_nofork d env (Ready_connection sock uid gid pid # rs) =
           (fst (wicked_accept_connection opt_nofork env pid sock uid gid)
              @ [Close_connection sock] @ fst (main_loop opt_nofork d env rs),
            snd (main_loop opt_nofork d env rs))"
  using assms by (auto simp add: wicked_accept_connection_def)

text \<open>
  The four paths: a caller with uid 1000, inline handling, a fork that returns the
  worker's pid 4711, and a fork that fails.
\<close>

theorem accept_returns_close_witness:
  "snd (wicked_accept_connection 0 (test_env []) 4711 5 1000 100) = Returns (- 1)
   \<and> snd (wicked_accept_connection 1 (test_env []) 0 5 0 0) = Returns (- 1)
   \<and> snd (wicked_accept_connection 0 (test_env []) 4711 5 0 0) = Returns (- 1)
   \<and> snd (wicked_accept_connection 0 (test_env []) (- 1) 5 0 0) = Returns (- 1)
   \<and> fst (main_loop 1 enum_in_order (test_env []) [Ready_connection 5 0 0 0]) =
       [Ni_debug_wicked ''accepted connection from uid=%u'' [Arg_uint 0],
        Ni_wicked_request_init, Ni_wicked_request_parse 5,
        Ni_wicked_call_direct ''GET /system/interface/eth0'',
        Ni_wicked_response_print 5 ''GET /system/interface/eth0'' 0,
        Ni_wicked_request_destroy ''GET /system/interface/eth0'',
        Close_connection 5]"
proof -
  have h1: "(1000 :: uid_t) \<noteq> 0 \<or> (0 :: int) \<noteq> 0 \<or> (4711 :: int) \<noteq> 0" by simp
  have h2: "(0 :: uid_t) \<noteq> 0 \<or> (1 :: int) \<noteq> 0 \<or> (0 :: int) \<noteq> 0" by simp
  have h3: "(0 :: uid_t) \<noteq> 0 \<or> (0 :: int) \<noteq> 0 \<or> (4711 :: int) \<noteq> 0" by simp
  have h4: "(0 :: uid_t) \<noteq> 0 \<or> (0 :: int) \<noteq> 0 \<or> (- 1 :: int) \<noteq> 0" by simp
  show ?thesis
    using accept_returns_close [OF h1, of "test_env []" 5 100 enum_in_order "[]"]
      accept_returns_close [OF h2, of "test_env []" 5 0 enum_in_order "[]"]
      accept_returns_close [OF h3, of "test_env []" 5 0 enum_in_order "[]"]
      accept_returns_close [OF h4, of "test_env []" 5 0 enum_in_order "[]"]
    by (simp add: wicked_accept_connection_def wicked_process_network_restcall_def test_env_def)
qed

subsection \<open>The request handler\<close>

text \<open>
  C2. The request handler writes exactly one response. With \<open>(rv, req)\<close> the result of
  parsing into the freshly initialized request and \<open>(rv', req')\<close> the result of the
  direct call on the parsed request, its calls are: initialize, parse, the direct call
  only when \<open>0 \<le> rv\<close>, the response (with status \<open>rv'\<close> after a direct call and the
  parse result \<open>rv\<close> otherwise), and last the release of the request. For a caller with
  uid 0 the acceptor's process writes that one response when it handles the connection
  inline or is the forked worker, and none otherwise (the daemon after a fork).
\<close>

theorem restcall_one_response:
  assumes "request_parse env sock (request_init env) = (rv, req)"
    and "call_direct env req = (rv', req')"
  shows "length (filter is_response (wicked_process_network_restcall env sock)) = 1
       \<and> wicked_process_network_restcall env sock =
           [Ni_wicked_request_init, Ni_wicked_request_parse sock]
           @ (if 0 \<le> rv then [Ni_wicked_call_direct req] else [])
           @ [Ni_wicked_response_print sock (if 0 \<le> rv then req' else req)
                (if 0 \<le> rv then rv' else rv),
              Ni_wicked_request_destroy (if 0 \<le> rv then req' else req)]
       \<and> length (filter is_response
            (fst (wicked_accept_connection opt_nofork env pid sock 0 gid))) =
           (if opt_nofork \<noteq> 0 \<or> pid = 0 then 1 else 0)"
  using assms
  by (simp add: wicked_process_network_restcall_def wicked_accept_connection_def)

text \<open>
  Scenario C of the spec: the stream of socket 0 does not parse; the handler makes no
  direct call and answers with the parse failure -1.
\<close>

theorem restcall_one_response_witness:
  "request_parse (test_env []) 0 (request_init (test_env [])) = (- 1, [])
   \<and> call_direct (test_env []) [] = (0, [])
   \<and> wicked_process_network_restcall (test_env []) 0 =
       [Ni_wicked_request_init, Ni_wicked_request_parse 0,
        Ni_wicked_response_print 0 [] (- 1), Ni_wicked_request_destroy []]"
proof -
  have h1: "request_parse (test_env []) 0 (request_init (test_env [])) = (- 1, [])"
    by (simp add: test_env_def)
  have h2: "call_direct (test_env []) [] = (0, [])"
    by (simp add: test_env_def)
  show ?thesis
    using h1 h2 restcall_one_response [OF h1 h2, of 0 0 0] by simp
qed

subsection \<open>The event handler\<close>

text \<open>
  C4. An event whose kind is none of the six known kinds is discarded silently: the
  handler returns before it makes any call, so it builds no event node, serializes no
  interface and evaluates no policy. This covers both a kind at or above
  \<^verbatim>\<open>__NI_EVENT_MAX\<close> and a kind below it whose table entry is \<^verbatim>\<open>NULL\<close>.
\<close>

theorem unknown_event_discarded:
  assumes "event \<notin> {NI_EVENT_LINK_CREATE d, NI_EVENT_LINK_DELETE d, NI_EVENT_LINK_UP d,
                      NI_EVENT_LINK_DOWN d, NI_EVENT_NETWORK_UP d, NI_EVENT_NETWORK_DOWN d}"
  shows "wicked_interface_event d env nih ifp event = []"
proof (cases "event < NI_EVENT_MAX d")
  case True
  with evtype_unknown [OF assms] show ?thesis
    by (simp add: wicked_interface_event_def)
next
  case False
  then show ?thesis
    by (simp add: wicked_interface_event_def)
qed

text \<open>
  Kind 17 is beyond the table of \<open>enum_in_order\<close>; kind 0 is inside the table of
  \<open>enum_from_one\<close>, where its entry is \<^verbatim>\<open>NULL\<close>.
\<close>

theorem unknown_event_discarded_witness:
  "(17 :: nat) \<notin> {0, 1, 2, 3, 4, 5}
   \<and> wicked_interface_event enum_in_order
        (test_env [(''link-down'', ''ifdown'')]) 0 \<lparr>name = ''eth0''\<rparr> 17 = []
   \<and> wicked_interface_event enum_from_one
        (test_env [(''link-down'', ''ifdown'')]) 0 \<lparr>name = ''eth0''\<rparr> 0 = []"
proof -
  have h1: "17 \<notin> {NI_EVENT_LINK_CREATE enum_in_order, NI_EVENT_LINK_DELETE enum_in_order,
      NI_EVENT_LINK_UP enum_in_order, NI_EVENT_LINK_DOWN enum_in_order,
      NI_EVENT_NETWORK_UP enum_in_order, NI_EVENT_NETWORK_DOWN enum_in_order}"
    by (simp add: enum_in_order_def)
  have h2: "0 \<notin> {NI_EVENT_LINK_CREATE enum_from_one, NI_EVENT_LINK_DELETE enum_from_one,
      NI_EVENT_LINK_UP enum_from_one, NI_EVENT_LINK_DOWN enum_from_one,
      NI_EVENT_NETWORK_UP enum_from_one, NI_EVENT_NETWORK_DOWN enum_from_one}"
    by (simp add: enum_from_one_def)
  show ?thesis
    using unknown_event_discarded [OF h1, of "test_env [(''link-down'', ''ifdown'')]" 0
        "\<lparr>name = ''eth0''\<rparr>"]
      unknown_event_discarded [OF h2, of "test_env [(''link-down'', ''ifdown'')]" 0
        "\<lparr>name = ''eth0''\<rparr>"]
    by simp
qed

text \<open>
  C9. For an event of one of the six known kinds (the enumerators being distinct and
  below \<^verbatim>\<open>__NI_EVENT_MAX\<close>), the handler first logs the event, creates a node tagged
  \<open>event\<close> and adds to it the attribute \<open>type\<close> with the kind's name from the table:
  link-create, link-delete, link-up, link-down, network-up, network-down. The node it
  frees at the end is that node: tagged \<open>event\<close>, with the one attribute \<open>type\<close>.
\<close>

theorem known_event_document:
  assumes "enum_ok d"
    and "(event, ev) \<in> {(NI_EVENT_LINK_CREATE d, ''link-create''),
                       (NI_EVENT_LINK_DELETE d, ''link-delete''),
                       (NI_EVENT_LINK_UP d, ''link-up''),
                       (NI_EVENT_LINK_DOWN d, ''link-down''),
                       (NI_EVENT_NETWORK_UP d, ''network-up''),
                       (NI_EVENT_NETWORK_DOWN d, ''network-down'')}"
  shows "take 3 (wicked_interface_event d env nih ifp event) =
           [Ni_debug_events ''%s: %s event'' [Arg_str (name ifp), Arg_str ev],
            Xml_node_new ''event'',
            Xml_node_add_attr (Xml_node ''event'' [] []) ''type'' ev]
         \<and> (\<exists>n. last (wicked_interface_event d env nih ifp event) = Xml_node_free n
               \<and> xml_name n = ''event'' \<and> xml_attrs n = [(''type'', ev)])"
proof -
  note f = enum_ok_facts [OF assms(1)] and e = evtype_entries [OF assms(1)]
  from assms(2) have
    "event = NI_EVENT_LINK_CREATE d \<and> ev = ''link-create''
     \<or> event = NI_EVENT_LINK_DELETE d \<and> ev = ''link-delete''
     \<or> event = NI_EVENT_LINK_UP d \<and> ev = ''link-up''
     \<or> event = NI_EVENT_LINK_DOWN d \<and> ev = ''link-down''
     \<or> event = NI_EVENT_NETWORK_UP d \<and> ev = ''network-up''
     \<or> event = NI_EVENT_NETWORK_DOWN d \<and> ev = ''network-down''"
    by simp
  then have "event < NI_EVENT_MAX d \<and> evtype d ! event = Some ev"
    using f(2-7) e by (elim disjE conjE) simp_all
  then show ?thesis
    using event_known_trace [of event d ev env nih ifp] by blast
qed

text \<open>A network-up event (kind 4 of \<open>enum_in_order\<close>) on eth0, with no policy stored.\<close>

theorem known_event_document_witness:
  "enum_ok enum_in_order
   \<and> take 3 (wicked_interface_event enum_in_order (test_env []) 0 \<lparr>name = ''eth0''\<rparr> 4) =
       [Ni_debug_events ''%s: %s event'' [Arg_str ''eth0'', Arg_str ''network-up''],
        Xml_node_new ''event'',
        Xml_node_add_attr (Xml_node ''event'' [] []) ''type'' ''network-up'']"
proof -
  have h: "(4, ''network-up'') \<in>
      {(NI_EVENT_LINK_CREATE enum_in_order, ''link-create''),
       (NI_EVENT_LINK_DELETE enum_in_order, ''link-delete''),
       (NI_EVENT_LINK_UP enum_in_order, ''link-up''),
       (NI_EVENT_LINK_DOWN enum_in_order, ''link-down''),
       (NI_EVENT_NETWORK_UP enum_in_order, ''network-up''),
       (NI_EVENT_NETWORK_DOWN enum_in_order, ''network-down'')}"
    by (simp add: enum_in_order_def)
  show ?thesis
    using enum_in_order_ok
      known_event_document [OF enum_in_order_ok h, of "test_env []" 0 "\<lparr>name = ''eth0''\<rparr>"]
    by simp
qed



text \<open>
  C3, as stated, fails: an event may lead to no policy being applied at all. Scenario E
  of the spec: a link-down event on eth0 with an empty policy store.
\<close>

theorem exactly_one_policy_counterexample:
  "length (applied (wicked_interface_event enum_in_order (test_env []) 0
      \<lparr>name = ''eth0''\<rparr> 3)) \<noteq> 1"
  by (simp add: wicked_interface_event_def Let_def evtype_in_order enum_in_order_max
       test_env_def ni_policy_match_event_def)

text \<open>
  C3, amended. For every kernel event the handler applies exactly one policy, the first
  match in store order, when the event's kind is known, the interface serializes and at
  least one stored policy accepts the event document (the event node with the interface
  snapshot attached); otherwise it applies none. No event triggers more than one policy
  action. With the matcher of the spec over a policy store: the policies applied are
  the result of the first-match search; a policy that is applied stands at an index of
  the store, accepts the document, and no policy before it does; and whenever some
  stored policy accepts the document of a known, serialized event, one is applied.
\<close>

theorem first_match_policy_applied:
  assumes "policy_match_event env = ni_policy_match_event accepts store"
  shows "applied (wicked_interface_event d env nih ifp event) =
           (if event < NI_EVENT_MAX d then
              (case evtype d ! event of
                 None \<Rightarrow> []
               | Some ev \<Rightarrow>
                   (case syntax_xml_from_interface env nih ifp of
                      None \<Rightarrow> []
                    | Some ifnode \<Rightarrow>
                        (case find (\<lambda>q. accepts q
                                 (xml_node_replace_child
                                    (xml_node_add_attr (xml_node_new ''event'') ''type'' ev)
                                    ifnode)) store of
                           None \<Rightarrow> []
                         | Some p \<Rightarrow> [p])))
            else [])
     \<and> length (applied (wicked_interface_event d env nih ifp event)) \<le> 1
     \<and> (\<forall>p \<in> set (applied (wicked_interface_event d env nih ifp event)).
          \<exists>ev ifnode i. event < NI_EVENT_MAX d \<and> evtype d ! event = Some ev
            \<and> syntax_xml_from_interface env nih ifp = Some ifnode
            \<and> i < length store \<and> p = store ! i
            \<and> accepts (store ! i)
                 (xml_node_replace_child
                    (xml_node_add_attr (xml_node_new ''event'') ''type'' ev) ifnode)
            \<and> (\<forall>j<i. \<not> accepts (store ! j)
                 (xml_node_replace_child
                    (xml_node_add_attr (xml_node_new ''event'') ''type'' ev) ifnode)))
     \<and> (\<forall>ev ifnode.
          event < NI_EVENT_MAX d \<and> evtype d ! event = Some ev
          \<and> syntax_xml_from_interface env nih ifp = Some ifnode
          \<and> (\<exists>q \<in> set store. accepts q
                 (xml_node_replace_child
                    (xml_node_add_attr (xml_node_new ''event'') ''type'' ev) ifnode))
          \<longrightarrow> length (applied (wicked_interface_event d env nih ifp event)) = 1)
     \<and> (\<forall>ev ifnode.
          event < NI_EVENT_MAX d \<and> evtype d ! event = Some ev
          \<and> syntax_xml_from_interface env nih ifp = Some ifnode
          \<and> \<not> (\<exists>q \<in> set store. accepts q
                 (xml_node_replace_child
                    (xml_node_add_attr (xml_node_new ''event'') ''type'' ev) ifnode))
          \<longrightarrow> applied (wicked_interface_event d env nih ifp event) = [])"
proof (intro conjI)
  have m: "policy_match_event env doc = find (\<lambda>q. accepts q doc) store" for doc
    using assms by (simp add: ni_policy_match_event_def)
  show eq: "applied (wicked_interface_event d env nih ifp event) =
           (if event < NI_EVENT_MAX d then
              (case evtype d ! event of
                 None \<Rightarrow> []
               | Some ev \<Rightarrow>
                   (case syntax_xml_from_interface env nih ifp of
                      None \<Rightarrow> []
                    | Some ifnode \<Rightarrow>
                        (case find (\<lambda>q. accepts q
                                 (xml_node_replace_child
                                    (xml_node_add_attr (xml_node_new ''event'') ''type'' ev)
                                    ifnode)) store of
                           None \<Rightarrow> []
                         | Some p \<Rightarrow> [p])))
            else [])"
    unfolding applied_event_eq m by (rule refl)
  show "length (applied (wicked_interface_event d env nih ifp event)) \<le> 1"
    by (simp add: applied_event_eq split: option.split)
  show "\<forall>p \<in> set (applied (wicked_interface_event d env nih ifp event)).
          \<exists>ev ifnode i. event < NI_EVENT_MAX d \<and> evtype d ! event = Some ev
            \<and> syntax_xml_from_interface env nih ifp = Some ifnode
            \<and> i < length store \<and> p = store ! i
            \<and> accepts (store ! i)
                 (xml_node_replace_child
                    (xml_node_add_attr (xml_node_new ''event'') ''type'' ev) ifnode)
            \<and> (\<forall>j<i. \<not> accepts (store ! j)
                 (xml_node_replace_child
                    (xml_node_add_attr (xml_node_new ''event'') ''type'' ev) ifnode))"
  proof
    fix p
    assume "p \<in> set (applied (wicked_interface_event d env nih ifp event))"
    then have "\<exists>ev ifnode. event < NI_EVENT_MAX d \<and> evtype d ! event = Some ev
        \<and> syntax_xml_from_interface env nih ifp = Some ifnode
        \<and> find (\<lambda>q. accepts q
             (xml_node_replace_child
                (xml_node_add_attr (xml_node_new ''event'') ''type'' ev) ifnode)) store = Some p"
      by (cases "event < NI_EVENT_MAX d"; cases "evtype d ! event";
          cases "syntax_xml_from_interface env nih ifp";
          simp add: eq split: option.split_asm)
    then obtain ev ifnode where k: "event < NI_EVENT_MAX d" "evtype d ! event = Some ev"
      "syntax_xml_from_interface env nih ifp = Some ifnode"
      and f: "find (\<lambda>q. accepts q
             (xml_node_replace_child
                (xml_node_add_attr (xml_node_new ''event'') ''type'' ev) ifnode)) store = Some p"
      by blast
    from f obtain i where "i < length store" "p = store ! i"
      "accepts (store ! i)
         (xml_node_replace_child (xml_node_add_attr (xml_node_new ''event'') ''type'' ev) ifnode)"
      "\<forall>j<i. \<not> accepts (store ! j)
         (xml_node_replace_child (xml_node_add_attr (xml_node_new ''event'') ''type'' ev) ifnode)"
      unfolding find_Some_iff by blast
    with k show "\<exists>ev ifnode i. event < NI_EVENT_MAX d \<and> evtype d ! event = Some ev
            \<and> syntax_xml_from_interface env nih ifp = Some ifnode
            \<and> i < length store \<and> p = store ! i
            \<and> accepts (store ! i)
                 (xml_node_replace_child
                    (xml_node_add_attr (xml_node_new ''event'') ''type'' ev) ifnode)
            \<and> (\<forall>j<i. \<not> accepts (store ! j)
                 (xml_node_replace_child
                    (xml_node_add_attr (xml_node_new ''event'') ''type'' ev) ifnode))"
      by blast
  qed
  show "\<forall>ev ifnode.
          event < NI_EVENT_MAX d \<and> evtype d ! event = Some ev
          \<and> syntax_xml_from_interface env nih ifp = Some ifnode
          \<and> (\<exists>q \<in> set store. accepts q
                 (xml_node_replace_child
                    (xml_node_add_attr (xml_node_new ''event'') ''type'' ev) ifnode))
          \<longrightarrow> length (applied (wicked_interface_event d env nih ifp event)) = 1"
  proof (intro allI impI, elim conjE)
    fix ev ifnode
    assume k: "event < NI_EVENT_MAX d" "evtype d ! event = Some ev"
      "syntax_xml_from_interface env nih ifp = Some ifnode"
      and ex: "\<exists>q \<in> set store. accepts q
                 (xml_node_replace_child
                    (xml_node_add_attr (xml_node_new ''event'') ''type'' ev) ifnode)"
    from ex have "find (\<lambda>q. accepts q
             (xml_node_replace_child
                (xml_node_add_attr (xml_node_new ''event'') ''type'' ev) ifnode)) store \<noteq> None"
      unfolding find_None_iff by blast
    then obtain p where "find (\<lambda>q. accepts q
             (xml_node_replace_child
                (xml_node_add_attr (xml_node_new ''event'') ''type'' ev) ifnode)) store = Some p"
      by blast
    with k show "length (applied (wicked_interface_event d env nih ifp event)) = 1"
      by (simp add: eq)
  qed
  show "\<forall>ev ifnode.
          event < NI_EVENT_MAX d \<and> evtype d ! event = Some ev
          \<and> syntax_xml_from_interface env nih ifp = Some ifnode
          \<and> \<not> (\<exists>q \<in> set store. accepts q
                 (xml_node_replace_child
                    (xml_node_add_attr (xml_node_new ''event'') ''type'' ev) ifnode))
          \<longrightarrow> applied (wicked_interface_event d env nih ifp event) = []"
  proof (intro allI impI, elim conjE)
    fix ev ifnode
    assume k: "event < NI_EVENT_MAX d" "evtype d ! event = Some ev"
      "syntax_xml_from_interface env nih ifp = Some ifnode"
      and nex: "\<not> (\<exists>q \<in> set store. accepts q
                 (xml_node_replace_child
                    (xml_node_add_attr (xml_node_new ''event'') ''type'' ev) ifnode))"
    from nex have "find (\<lambda>q. accepts q
             (xml_node_replace_child
                (xml_node_add_attr (xml_node_new ''event'') ''type'' ev) ifnode)) store = None"
      unfolding find_None_iff by blast
    with k show "applied (wicked_interface_event d env nih ifp event) = []"
      by (simp add: eq)
  qed
qed

text \<open>
  A link-down event on eth0 with three policies stored, of which the second and the
  third accept link-down events: the second, and only the second, is applied. The same
  event with an empty store applies none.
\<close>

theorem first_match_policy_applied_witness:
  "policy_match_event
       (test_env [(''link-up'', ''ifup''), (''link-down'', ''ifdown''), (''link-down'', ''other'')])
     = ni_policy_match_event accepts_kind
         [(''link-up'', ''ifup''), (''link-down'', ''ifdown''), (''link-down'', ''other'')]
   \<and> applied (wicked_interface_event enum_in_order
        (test_env [(''link-up'', ''ifup''), (''link-down'', ''ifdown''), (''link-down'', ''other'')])
        0 \<lparr>name = ''eth0''\<rparr> 3) = [(''link-down'', ''ifdown'')]
   \<and> applied (wicked_interface_event enum_in_order (test_env []) 0 \<lparr>name = ''eth0''\<rparr> 3) = []"
proof -
  have h: "policy_match_event
       (test_env [(''link-up'', ''ifup''), (''link-down'', ''ifdown''), (''link-down'', ''other'')])
     = ni_policy_match_event accepts_kind
         [(''link-up'', ''ifup''), (''link-down'', ''ifdown''), (''link-down'', ''other'')]"
    by (simp add: test_env_def)
  have h0: "policy_match_event (test_env []) = ni_policy_match_event accepts_kind []"
    by (simp add: test_env_def)
  have sn: "syntax_xml_from_interface (test_env store) 0 \<lparr>name = ''eth0''\<rparr>
      = Some (Xml_node ''interface'' [(''name'', ''eth0'')] [])" for store
    by (simp add: test_env_def)
  from first_match_policy_applied [OF h, of enum_in_order 0 "\<lparr>name = ''eth0''\<rparr>" 3,
      THEN conjunct1]
  have a: "applied (wicked_interface_event enum_in_order
        (test_env [(''link-up'', ''ifup''), (''link-down'', ''ifdown''), (''link-down'', ''other'')])
        0 \<lparr>name = ''eth0''\<rparr> 3) = [(''link-down'', ''ifdown'')]"
    by (simp add: evtype_in_order enum_in_order_max sn accepts_kind_def
         xml_node_new_def xml_node_add_attr_def xml_node_replace_child_def)
  from first_match_policy_applied [OF h0, of enum_in_order 0 "\<lparr>name = ''eth0''\<rparr>" 3,
      THEN conjunct1]
  have b: "applied (wicked_interface_event enum_in_order (test_env []) 0
      \<lparr>name = ''eth0''\<rparr> 3) = []"
    by (simp add: evtype_in_order enum_in_order_max sn)
  from h a b show ?thesis
    by (intro conjI)
qed

subsection \<open>The target path\<close>

text \<open>
  C6, as stated, fails for a long interface name: on a link-down event that is matched
  and applied, for an interface whose name is 238 characters long, the path built is not
  \<open>/system/interface/<name>\<close> but its first 255 characters.
\<close>

theorem restpath_exact_counterexample:
  "applied (wicked_interface_event enum_in_order (test_env [(''link-down'', ''ifdown'')]) 0
      \<lparr>name = replicate 238 CHR ''x''\<rparr> 3) = [(''link-down'', ''ifdown'')]
   \<and> restpaths (wicked_interface_event enum_in_order (test_env [(''link-down'', ''ifdown'')]) 0
      \<lparr>name = replicate 238 CHR ''x''\<rparr> 3)
     = [take 255 (''/system/interface/'' @ replicate 238 CHR ''x'')]
   \<and> restpaths (wicked_interface_event enum_in_order (test_env [(''link-down'', ''ifdown'')]) 0
      \<lparr>name = replicate 238 CHR ''x''\<rparr> 3)
     \<noteq> [''/system/interface/'' @ replicate 238 CHR ''x'']"
proof -
  have k: "3 < NI_EVENT_MAX enum_in_order"
    by (simp add: enum_in_order_max)
  have sn: "syntax_xml_from_interface (test_env [(''link-down'', ''ifdown'')]) 0
      \<lparr>name = replicate 238 CHR ''x''\<rparr>
      = Some (Xml_node ''interface'' [(''name'', replicate 238 CHR ''x'')] [])"
    by (simp add: test_env_def)
  have m: "policy_match_event (test_env [(''link-down'', ''ifdown'')])
      (xml_node_replace_child (xml_node_add_attr (xml_node_new ''event'') ''type'' ''link-down'')
         (Xml_node ''interface'' [(''name'', replicate 238 CHR ''x'')] []))
      = Some (''link-down'', ''ifdown'')"
    by (simp add: test_env_def ni_policy_match_event_def accepts_kind_def
          xml_node_new_def xml_node_add_attr_def xml_node_replace_child_def)
  obtain rv ifnode' where ap: "policy_apply (test_env [(''link-down'', ''ifdown'')])
      (''link-down'', ''ifdown'') (Xml_node ''interface'' [(''name'', replicate 238 CHR ''x'')] [])
      = (rv, ifnode')" and rv: "rv = 0"
    by (simp add: test_env_def)
  have t: "restpaths (wicked_interface_event enum_in_order (test_env [(''link-down'', ''ifdown'')])
      0 \<lparr>name = replicate 238 CHR ''x''\<rparr> 3)
     = [take 255 (''/system/interface/'' @ replicate 238 CHR ''x'')]"
    and a: "applied (wicked_interface_event enum_in_order (test_env [(''link-down'', ''ifdown'')])
      0 \<lparr>name = replicate 238 CHR ''x''\<rparr> 3) = [(''link-down'', ''ifdown'')]"
    unfolding event_policy_applied [OF k evtype_in_order sn m ap] rv
    by (simp_all add: snprintf_restpath)
  have "237 < length (replicate 238 CHR ''x'')"
    by simp
  from truncated_restpath [OF this]
  have "take 255 (''/system/interface/'' @ replicate 238 CHR ''x'')
      \<noteq> ''/system/interface/'' @ replicate 238 CHR ''x''"
    by (rule conjunct2)
  then have "[take 255 (''/system/interface/'' @ replicate 238 CHR ''x'')]
      \<noteq> [''/system/interface/'' @ replicate 238 CHR ''x'']"
    by (simp only: list.inject simp_thms)
  with t a show ?thesis
    by (simp only: simp_thms)
qed

text \<open>
  C6, amended. For every matched-and-applied event (known kind, the interface
  serializes, a policy matches and its transform does not fail) on an interface whose
  name has at most 237 characters, the one target path built is exactly
  \<open>/system/interface/<name>\<close>.
\<close>

theorem restpath_exact:
  assumes "event < NI_EVENT_MAX d" and "evtype d ! event = Some ev"
    and "syntax_xml_from_interface env nih ifp = Some ifnode"
    and "policy_match_event env
           (xml_node_replace_child (xml_node_add_attr (xml_node_new ''event'') ''type'' ev) ifnode)
         = Some p"
    and "policy_apply env p ifnode = (rv, ifnode')"
    and "0 \<le> rv"
    and "length (name ifp) \<le> 237"
  shows "restpaths (wicked_interface_event d env nih ifp event)
       = [''/system/interface/'' @ name ifp]"
  using event_policy_applied [OF assms(1-5)] assms(6,7)
  by (simp add: snprintf_restpath)

text \<open>
  Scenario D of the spec: a link-down event on eth0 and a stored policy for link-down
  events; the path built is \<open>/system/interface/eth0\<close>.
\<close>

theorem restpath_exact_witness:
  "3 < NI_EVENT_MAX enum_in_order
   \<and> evtype enum_in_order ! 3 = Some ''link-down''
   \<and> length (name \<lparr>name = ''eth0''\<rparr>) \<le> 237
   \<and> restpaths (wicked_interface_event enum_in_order (test_env [(''link-down'', ''ifdown'')]) 0
        \<lparr>name = ''eth0''\<rparr> 3) = [''/system/interface/eth0'']"
proof -
  have k: "3 < NI_EVENT_MAX enum_in_order"
    by (simp add: enum_in_order_max)
  have sn: "syntax_xml_from_interface (test_env [(''link-down'', ''ifdown'')]) 0
      \<lparr>name = ''eth0''\<rparr> = Some (Xml_node ''interface'' [(''name'', ''eth0'')] [])"
    by (simp add: test_env_def)
  have m: "policy_match_event (test_env [(''link-down'', ''ifdown'')])
      (xml_node_replace_child (xml_node_add_attr (xml_node_new ''event'') ''type'' ''link-down'')
         (Xml_node ''interface'' [(''name'', ''eth0'')] []))
      = Some (''link-down'', ''ifdown'')"
    by (simp add: test_env_def ni_policy_match_event_def accepts_kind_def
          xml_node_new_def xml_node_add_attr_def xml_node_replace_child_def)
  have ap: "policy_apply (test_env [(''link-down'', ''ifdown'')])
      (''link-down'', ''ifdown'') (Xml_node ''interface'' [(''name'', ''eth0'')] [])
      = (0, Xml_node ''interface'' [(''name'', ''eth0''), (''action'', ''ifdown'')] [])"
    by (simp add: test_env_def xml_node_add_attr_def)
  have rv: "(0 :: int) \<le> 0"
    by simp
  have len: "length (name \<lparr>name = ''eth0''\<rparr>) \<le> 237"
    by simp
  show ?thesis
    using k evtype_in_order len restpath_exact [OF k evtype_in_order sn m ap rv len]
    by simp
qed



end
